theory Spec2Isabelle
  imports Complex_Main
begin

section \<open>Tensors, errors and elementwise operations\<close>

text \<open>
  Exceptions of the Python program are values: a function that may raise returns
  \<open>error + 'a\<close>, with \<open>Inl\<close> carrying the exception.
\<close>

datatype error = TypeError | RuntimeError | AttributeError | IndexError | KeyError | ValueError

definition bind_e :: "error + 'a \<Rightarrow> ('a \<Rightarrow> error + 'b) \<Rightarrow> error + 'b" where
  "bind_e m f = (case m of Inl e \<Rightarrow> Inl e | Inr x \<Rightarrow> f x)"

fun sequence_e :: "(error + 'a) list \<Rightarrow> error + 'a list" where
  "sequence_e [] = Inr []"
| "sequence_e (m # ms) =
     (case m of Inl e \<Rightarrow> Inl e
      | Inr x \<Rightarrow> (case sequence_e ms of Inl e \<Rightarrow> Inl e | Inr xs \<Rightarrow> Inr (x # xs)))"

text \<open>
  A tensor is a vector (one dimension) or a batch of rows (two dimensions). Entries are
  real numbers: the rounding of 32-bit floats is not part of the model. A batch with no
  rows carries no column count.
\<close>

datatype tensor = T1 "real list" | T2 "real list list"

fun tmap :: "(real \<Rightarrow> real) \<Rightarrow> tensor \<Rightarrow> tensor" where
  "tmap f (T1 xs) = T1 (map f xs)"
| "tmap f (T2 rows) = T2 (map (map f) rows)"

fun entries :: "tensor \<Rightarrow> real list" where
  "entries (T1 xs) = xs"
| "entries (T2 rows) = concat rows"

text \<open>\<open>x.shape[0]\<close>: the size of the first dimension.\<close>

fun shape0 :: "tensor \<Rightarrow> nat" where
  "shape0 (T1 xs) = length xs"
| "shape0 (T2 rows) = length rows"

definition sigmoid :: "real \<Rightarrow> real" where
  "sigmoid x = 1 / (1 + exp (- x))"

definition relu :: "real \<Rightarrow> real" where
  "relu x = max 0 x"

text \<open>
  Elementwise binary operations with the broadcasting of a dimension of size 1; shapes
  that cannot be broadcast raise the error \<open>err\<close>.
\<close>

definition broadcast_row :: "(real \<Rightarrow> real \<Rightarrow> real) \<Rightarrow> error \<Rightarrow> real list \<Rightarrow> real list \<Rightarrow> error + real list" where
  "broadcast_row f err xs ys =
     (if length xs = length ys then Inr (map2 f xs ys)
      else if length xs = 1 then Inr (map (\<lambda>y. f (hd xs) y) ys)
      else if length ys = 1 then Inr (map (\<lambda>x. f x (hd ys)) xs)
      else Inl err)"

fun broadcast2 :: "(real \<Rightarrow> real \<Rightarrow> real) \<Rightarrow> error \<Rightarrow> tensor \<Rightarrow> tensor \<Rightarrow> error + tensor" where
  "broadcast2 f err (T1 xs) (T1 ys) = map_sum id T1 (broadcast_row f err xs ys)"
| "broadcast2 f err (T1 xs) (T2 b) = map_sum id T2 (sequence_e (map (broadcast_row f err xs) b))"
| "broadcast2 f err (T2 a) (T1 ys) =
     map_sum id T2 (sequence_e (map (\<lambda>r. broadcast_row f err r ys) a))"
| "broadcast2 f err (T2 a) (T2 b) =
     (if length a = length b then map_sum id T2 (sequence_e (map2 (broadcast_row f err) a b))
      else if length a = 1 then map_sum id T2 (sequence_e (map (broadcast_row f err (hd a)) b))
      else if length b = 1 then
        map_sum id T2 (sequence_e (map (\<lambda>r. broadcast_row f err r (hd b)) a))
      else Inl err)"

text \<open>\<open>input1 - input2\<close> on tensors.\<close>

definition tsub :: "tensor \<Rightarrow> tensor \<Rightarrow> error + tensor" where
  "tsub a b = broadcast2 (-) RuntimeError a b"

text \<open>Two tensors have the same shape.\<close>

fun same_shape :: "tensor \<Rightarrow> tensor \<Rightarrow> bool" where
  "same_shape (T1 xs) (T1 ys) \<longleftrightarrow> length xs = length ys"
| "same_shape (T2 a) (T2 b) \<longleftrightarrow> map length a = map length b"
| "same_shape _ _ \<longleftrightarrow> False"

section \<open>The networks\<close>

text \<open>
  \<open>nn.Linear(in_features, out_features)\<close>: a weight matrix of \<open>out_features\<close> rows and
  \<open>in_features\<close> columns and a bias of \<open>out_features\<close> entries. The initial values are
  drawn at random by the library; the model takes them from two functions.
\<close>

record linear =
  in_features :: nat
  out_features :: nat
  weight :: "real list list"
  bias :: "real list"

definition nn_Linear :: "(nat \<Rightarrow> nat \<Rightarrow> real) \<Rightarrow> (nat \<Rightarrow> real) \<Rightarrow> nat \<Rightarrow> nat \<Rightarrow> linear" where
  "nn_Linear w0 b0 n_in n_out =
     \<lparr>in_features = n_in, out_features = n_out,
      weight = map (\<lambda>r. map (w0 r) [0..<n_in]) [0..<n_out],
      bias = map b0 [0..<n_out]\<rparr>"

definition wf_linear :: "linear \<Rightarrow> bool" where
  "wf_linear l \<longleftrightarrow>
     length (weight l) = out_features l \<and>
     list_all (\<lambda>row. length row = in_features l) (weight l) \<and>
     length (bias l) = out_features l"

definition dot :: "real list \<Rightarrow> real list \<Rightarrow> real" where
  "dot xs ys = sum_list (map2 (*) xs ys)"

definition affine :: "linear \<Rightarrow> real list \<Rightarrow> real list" where
  "affine l x = map2 (\<lambda>row b. dot row x + b) (weight l) (bias l)"

text \<open>Calling a linear layer: the last dimension of the input must be \<open>in_features\<close>.\<close>

fun linear_forward :: "linear \<Rightarrow> tensor \<Rightarrow> error + tensor" where
  "linear_forward l (T1 xs) =
     (if length xs = in_features l then Inr (T1 (affine l xs)) else Inl RuntimeError)"
| "linear_forward l (T2 rows) =
     (if list_all (\<lambda>r. length r = in_features l) rows then Inr (T2 (map (affine l) rows))
      else Inl RuntimeError)"

text \<open>
  A module: the attribute \<open>fc_layers\<close>, the registered layers in the order of their
  registration, and the training-mode flag. The layer registered under the name
  \<open>'fc' + str(i)\<close> is stored under the key \<open>i\<close>.
\<close>

record ranknet =
  fc_layers :: nat
  modules :: "(nat \<times> linear) list"
  training :: bool

definition getattr_fc :: "ranknet \<Rightarrow> nat \<Rightarrow> error + linear" where
  "getattr_fc net i =
     (case map_of (modules net) i of None \<Rightarrow> Inl AttributeError | Some l \<Rightarrow> Inr l)"

text \<open>\<open>setattr\<close>: a name already registered keeps its place, a new name goes last.\<close>

definition setattr_fc :: "(nat \<times> linear) list \<Rightarrow> nat \<Rightarrow> linear \<Rightarrow> (nat \<times> linear) list" where
  "setattr_fc ms i l =
     (if i \<in> set (map fst ms) then map (\<lambda>(k, v). if k = i then (k, l) else (k, v)) ms
      else ms @ [(i, l)])"

text \<open>
  \<open>RankNet.__init__\<close>. The initial values of layer \<open>k\<close> are \<open>w0 k\<close> and \<open>b0 k\<close>. An empty
  structure raises at \<open>net_structures[-1]\<close>.
\<close>

definition RankNet_init ::
  "(nat \<Rightarrow> nat \<Rightarrow> nat \<Rightarrow> real) \<Rightarrow> (nat \<Rightarrow> nat \<Rightarrow> real) \<Rightarrow> nat list \<Rightarrow> error + ranknet" where
  "RankNet_init w0 b0 net_structures =
     (let n = length net_structures;
          ms = foldl (\<lambda>ms i. setattr_fc ms (i + 1)
                  (nn_Linear (w0 (i + 1)) (b0 (i + 1)) (net_structures ! i) (net_structures ! (i + 1))))
                [] [0..<n - 1]
      in if net_structures = [] then Inl IndexError
         else Inr \<lparr>fc_layers = n,
                   modules = setattr_fc ms n (nn_Linear (w0 n) (b0 n) (last net_structures) 1),
                   training = True\<rparr>)"

text \<open>
  \<open>RankNet.forward\<close>. The loop over \<open>range(1, self.fc_layers)\<close> carries both inputs
  through the same layer at each step.
\<close>

fun forward_loop :: "ranknet \<Rightarrow> nat list \<Rightarrow> tensor \<Rightarrow> tensor \<Rightarrow> error + (tensor \<times> tensor)" where
  "forward_loop net [] input1 input2 = Inr (input1, input2)"
| "forward_loop net (i # is) input1 input2 =
     bind_e (getattr_fc net i) (\<lambda>fc.
     bind_e (linear_forward fc input1) (\<lambda>a.
     bind_e (linear_forward fc input2) (\<lambda>b.
     forward_loop net is (tmap relu a) (tmap relu b))))"

text \<open>The two values \<open>input1\<close>, \<open>input2\<close> just before the last line of \<open>RankNet.forward\<close>.\<close>

definition RankNet_sides :: "ranknet \<Rightarrow> tensor \<Rightarrow> tensor \<Rightarrow> error + (tensor \<times> tensor)" where
  "RankNet_sides net input1 input2 =
     bind_e (forward_loop net [1..<fc_layers net] input1 input2) (\<lambda>(a, b).
     bind_e (getattr_fc net (fc_layers net)) (\<lambda>fc.
     bind_e (linear_forward fc a) (\<lambda>a'.
     bind_e (linear_forward fc b) (\<lambda>b'.
     Inr (tmap sigmoid a', tmap sigmoid b')))))"

definition RankNet_forward :: "ranknet \<Rightarrow> tensor \<Rightarrow> tensor \<Rightarrow> error + tensor" where
  "RankNet_forward net input1 input2 =
     bind_e (RankNet_sides net input1 input2) (\<lambda>(a, b).
     bind_e (tsub a b) (\<lambda>d. Inr (tmap sigmoid d)))"

text \<open>\<open>RankNetInference.forward\<close>: one input.\<close>

fun inference_loop :: "ranknet \<Rightarrow> nat list \<Rightarrow> tensor \<Rightarrow> error + tensor" where
  "inference_loop net [] input1 = Inr input1"
| "inference_loop net (i # is) input1 =
     bind_e (getattr_fc net i) (\<lambda>fc.
     bind_e (linear_forward fc input1) (\<lambda>a.
     inference_loop net is (tmap relu a)))"

definition RankNetInference_forward :: "ranknet \<Rightarrow> tensor \<Rightarrow> error + tensor" where
  "RankNetInference_forward net input1 =
     bind_e (inference_loop net [1..<fc_layers net] input1) (\<lambda>a.
     bind_e (getattr_fc net (fc_layers net)) (\<lambda>fc.
     bind_e (linear_forward fc a) (\<lambda>a'.
     Inr (tmap sigmoid a'))))"

section \<open>Parameter state\<close>

text \<open>
  \<open>state_dict()\<close>: the parameters in the order of registration. The key
  \<open>'fc' + str(i) + '.weight'\<close> is \<open>(i, Weight)\<close>, and likewise for the bias.
\<close>

datatype pkind = Weight | Bias

type_synonym state_dict = "((nat \<times> pkind) \<times> tensor) list"

definition state_dict :: "ranknet \<Rightarrow> state_dict" where
  "state_dict net =
     concat (map (\<lambda>(i, l). [((i, Weight), T2 (weight l)), ((i, Bias), T1 (bias l))]) (modules net))"

fun rows_of :: "tensor \<Rightarrow> real list list" where
  "rows_of (T2 rows) = rows"
| "rows_of (T1 xs) = [xs]"

text \<open>
  \<open>load_state_dict\<close> (strict): a missing key, an unexpected key or a parameter of another
  shape raises; otherwise every parameter takes the value stored under its key.
\<close>

definition load_state_dict :: "ranknet \<Rightarrow> state_dict \<Rightarrow> error + ranknet" where
  "load_state_dict net sd =
     (let own = state_dict net in
      if set (map fst sd) \<noteq> set (map fst own) then Inl RuntimeError
      else if list_ex (\<lambda>(k, v). case map_of sd k of None \<Rightarrow> True
                                   | Some v' \<Rightarrow> \<not> same_shape v' v) own then Inl RuntimeError
      else Inr (net\<lparr>modules :=
             map (\<lambda>(i, l). (i, l\<lparr>weight := (case map_of sd (i, Weight) of
                                                 Some t \<Rightarrow> rows_of t | None \<Rightarrow> weight l),
                                    bias := (case map_of sd (i, Bias) of
                                                 Some t \<Rightarrow> entries t | None \<Rightarrow> bias l)\<rparr>))
                 (modules net)\<rparr>))"

section \<open>Checkpoint files\<close>

text \<open>
  Modelled from the spec: \<open>save_to_ckpt\<close> of \<open>utils\<close> is not among the sources. A
  checkpoint holds the epoch, the model parameter state, the optimizer state and the
  scheduler state, and is written to the file \<open>base_epoch\<close>.
\<close>

record ('o, 's) checkpoint =
  epoch :: int
  model_state_dict :: state_dict
  optimizer_state_dict :: 'o
  scheduler_state_dict :: 's

datatype ('o, 's) stored = Ckpt_file "('o, 's) checkpoint" | Params_file state_dict

type_synonym ('o, 's) filesystem = "string \<Rightarrow> ('o, 's) stored option"

text \<open>\<open>'{}'.format(epoch)\<close> for an integer.\<close>

fun str_nat :: "nat \<Rightarrow> string" where
  "str_nat n =
     (if n < 10 then [''0123456789'' ! n]
      else str_nat (n div 10) @ [''0123456789'' ! (n mod 10)])"

declare str_nat.simps [simp del]

definition str_int :: "int \<Rightarrow> string" where
  "str_int i = (if i < 0 then CHR ''-'' # str_nat (nat (- i)) else str_nat (nat i))"

definition ckpt_name :: "string \<Rightarrow> int \<Rightarrow> string" where
  "ckpt_name ckpt_file ep = ckpt_file @ ''_'' @ str_int ep"

definition save_to_ckpt ::
  "('o, 's) filesystem \<Rightarrow> string \<Rightarrow> int \<Rightarrow> ranknet \<Rightarrow> 'o \<Rightarrow> 's \<Rightarrow> ('o, 's) filesystem" where
  "save_to_ckpt files ckpt_file ep model opt sched =
     files(ckpt_name ckpt_file ep \<mapsto>
       Ckpt_file \<lparr>epoch = ep, model_state_dict = state_dict model,
                  optimizer_state_dict = opt, scheduler_state_dict = sched\<rparr>)"

text \<open>What the program prints and the calls it makes to its collaborators, in order.\<close>

datatype npfloat = Num real | NaN

datatype event =
    Print_load_from string
  | Print_finish_load string
  | Print_not_exist string
  | Scheduler_step
  | Optimizer_step
  | Print_minibatch int nat npfloat
  | Print_epoch int npfloat
  | Save_ckpt int
  | Sync_inference
  | Print_eval_minibatch nat npfloat
  | Print_eval_loss npfloat
  | Eval_cross_entropy
  | Eval_ndcg "nat list"
  | Save_final

text \<open>
  \<open>load_from_ckpt\<close>. Reading \<open>['model_state_dict']\<close> from a file that holds a bare
  parameter state raises \<open>KeyError\<close>.
\<close>

definition load_from_ckpt ::
  "('o, 's) filesystem \<Rightarrow> string \<Rightarrow> int \<Rightarrow> ranknet \<Rightarrow> error + (ranknet \<times> event list)" where
  "load_from_ckpt files ckpt_file ep model =
     (let ckpt_file = ckpt_file @ ''_'' @ str_int ep in
      case files ckpt_file of
        Some f \<Rightarrow>
          (case f of
             Ckpt_file ckpt_state_dict \<Rightarrow>
               bind_e (load_state_dict model (model_state_dict ckpt_state_dict)) (\<lambda>model'.
               Inr (model', [Print_load_from ckpt_file, Print_finish_load ckpt_file]))
           | Params_file _ \<Rightarrow> Inl KeyError)
      | None \<Rightarrow> Inr (model, [Print_not_exist ckpt_file]))"

section \<open>Loss and labels\<close>

text \<open>\<open>np.mean\<close> of a list of floats: the mean of no value is \<open>nan\<close>.\<close>

fun the_num :: "npfloat \<Rightarrow> real" where
  "the_num (Num x) = x"
| "the_num NaN = 0"

definition np_mean :: "npfloat list \<Rightarrow> npfloat" where
  "np_mean xs =
     (if xs = [] then NaN
      else if NaN \<in> set xs then NaN
      else Num (sum_list (map the_num xs) / real (length xs)))"

text \<open>
  \<open>torch.nn.BCELoss\<close> with the mean reduction: the target must have the shape of the
  input, the input entries must lie in \<open>[0, 1]\<close>, and each logarithm is clamped below
  at \<open>-100\<close>.
\<close>

definition clamp_log :: "real \<Rightarrow> real" where
  "clamp_log p = (if p \<le> 0 then - 100 else max (ln p) (- 100))"

definition bce_term :: "real \<Rightarrow> real \<Rightarrow> real" where
  "bce_term p y = - (y * clamp_log p + (1 - y) * clamp_log (1 - p))"

definition BCELoss :: "tensor \<Rightarrow> tensor \<Rightarrow> error + npfloat" where
  "BCELoss inp target =
     (if \<not> same_shape inp target then Inl ValueError
      else if \<not> list_all (\<lambda>p. 0 \<le> p \<and> p \<le> 1) (entries inp) then Inl RuntimeError
      else Inr (np_mean (map Num (map2 bce_term (entries inp) (entries target)))))"

text \<open>
  A batch is the tuple \<open>(x_i, y_i, x_j, y_j)\<close> the generator yields; each component is an
  array or \<open>None\<close>.
\<close>

type_synonym batch = "tensor option \<times> tensor option \<times> tensor option \<times> tensor option"

text \<open>\<open>torch.Tensor(x)\<close>: \<open>None\<close> is not a sequence.\<close>

definition torch_Tensor :: "tensor option \<Rightarrow> error + tensor" where
  "torch_Tensor x = (case x of None \<Rightarrow> Inl TypeError | Some t \<Rightarrow> Inr t)"

text \<open>The binary label \<open>(y_i > y_j).astype(np.float32)\<close>.\<close>

definition binary_label :: "tensor option \<Rightarrow> tensor option \<Rightarrow> error + tensor" where
  "binary_label y_i y_j =
     (case (y_i, y_j) of
        (Some a, Some b) \<Rightarrow> broadcast2 (\<lambda>u v. if u > v then 1 else 0) ValueError a b
      | _ \<Rightarrow> Inl TypeError)"

text \<open>The test \<open>x_i is None or x_i.shape[0] == 0\<close>.\<close>

definition skipped :: "batch \<Rightarrow> bool" where
  "skipped b = (case b of (x_i, y_i, x_j, y_j) \<Rightarrow>
     (case x_i of None \<Rightarrow> True | Some t \<Rightarrow> shape0 t = 0))"

section \<open>Training and evaluation\<close>

text \<open>
  The collaborators of the training loop are parameters of the model: the initial
  parameter values of the two networks, the optimizers and the learning-rate schedule of
  the library, the gradient step (\<open>zero_grad\<close>, \<open>backward\<close> and \<open>optimizer.step\<close> taken
  together: the new network and optimizer state, given the batch), the checkpoint
  directory, and the data with its batch generator. Device placement has no effect here
  and console output other than the loss and checkpoint messages is left out.
\<close>

record ('o, 's, 'd) env =
  init_w :: "nat \<Rightarrow> nat \<Rightarrow> nat \<Rightarrow> real"
  init_b :: "nat \<Rightarrow> nat \<Rightarrow> real"
  init_w_inference :: "nat \<Rightarrow> nat \<Rightarrow> nat \<Rightarrow> real"
  init_b_inference :: "nat \<Rightarrow> nat \<Rightarrow> real"
  Adam :: "real \<Rightarrow> 'o"
  SGD :: "real \<Rightarrow> real \<Rightarrow> 'o"
  StepLR :: "'o \<Rightarrow> nat \<Rightarrow> real \<Rightarrow> 's"
  scheduler_step :: "'s \<Rightarrow> 'o \<Rightarrow> 's \<times> 'o"
  backward_step :: "ranknet \<Rightarrow> 'o \<Rightarrow> tensor \<Rightarrow> tensor \<Rightarrow> tensor \<Rightarrow> ranknet \<times> 'o"
  get_ckptdir :: "string \<Rightarrow> nat list \<Rightarrow> string"
  load_train_vali_data :: "string \<Rightarrow> 'd \<times> 'd"
  generate_query_pair_batch :: "'d \<Rightarrow> nat \<Rightarrow> batch list"

record ('o, 's) tstate =
  st_net :: ranknet
  st_net_inference :: ranknet
  st_optimizer :: 'o
  st_scheduler :: 's
  st_losses :: "npfloat list"
  st_files :: "('o, 's) filesystem"
  st_trace :: "event list"

definition ranknet_structure :: "nat list" where
  "ranknet_structure = [136, 64, 16]"

text \<open>
  The body of the loop over the batches of an epoch, with the locals
  \<open>lossed_minibatch\<close> and \<open>minibatch\<close>.
\<close>

definition train_batch ::
  "('o, 's, 'd) env \<Rightarrow> int \<Rightarrow> batch \<Rightarrow> ('o, 's) tstate \<times> npfloat list \<times> nat \<Rightarrow>
     error + (('o, 's) tstate \<times> npfloat list \<times> nat)" where
  "train_batch E i b s =
     (case s of (st, lossed_minibatch, minibatch) \<Rightarrow>
      case b of (x_i, y_i, x_j, y_j) \<Rightarrow>
      if (case x_i of None \<Rightarrow> True | Some t \<Rightarrow> shape0 t = 0) then Inr s
      else
        bind_e (torch_Tensor x_i) (\<lambda>xi.
        bind_e (torch_Tensor x_j) (\<lambda>xj.
        bind_e (binary_label y_i y_j) (\<lambda>y.
        bind_e (RankNet_forward (st_net st) xi xj) (\<lambda>y_pred.
        bind_e (BCELoss y_pred y) (\<lambda>loss.
          let (net', opt') = backward_step E (st_net st) (st_optimizer st) xi xj y;
              minibatch' = minibatch + 1
          in Inr (st\<lparr>st_net := net', st_optimizer := opt',
                      st_trace := st_trace st @ [Optimizer_step] @
                        (if minibatch' mod 100 = 0 then [Print_minibatch i minibatch' loss]
                         else [])\<rparr>,
                  lossed_minibatch @ [loss], minibatch')))))))"

fun train_batches ::
  "('o, 's, 'd) env \<Rightarrow> int \<Rightarrow> batch list \<Rightarrow> ('o, 's) tstate \<times> npfloat list \<times> nat \<Rightarrow>
     error + (('o, 's) tstate \<times> npfloat list \<times> nat)" where
  "train_batches E i [] s = Inr s"
| "train_batches E i (b # bs) s = bind_e (train_batch E i b s) (train_batches E i bs)"

text \<open>
  \<open>eval_model\<close>. The loop runs under \<open>torch.no_grad()\<close>, which has no counterpart in a
  model without gradients. The two metric functions are collaborators: their calls are
  recorded, and by their contract they return a value and change nothing. The result is
  the two networks as the call leaves them and what was printed and called.
\<close>

definition eval_batch ::
  "ranknet \<Rightarrow> batch \<Rightarrow> npfloat list \<times> nat \<times> event list \<Rightarrow>
     error + (npfloat list \<times> nat \<times> event list)" where
  "eval_batch model b s =
     (case s of (lossed_minibatch, minibatch, out) \<Rightarrow>
      case b of (x_i, y_i, x_j, y_j) \<Rightarrow>
      if (case x_i of None \<Rightarrow> True | Some t \<Rightarrow> shape0 t = 0) then Inr s
      else
        bind_e (torch_Tensor x_i) (\<lambda>xi.
        bind_e (torch_Tensor x_j) (\<lambda>xj.
        bind_e (binary_label y_i y_j) (\<lambda>y.
        bind_e (RankNet_forward model xi xj) (\<lambda>y_pred.
        bind_e (BCELoss y_pred y) (\<lambda>loss.
          let minibatch' = minibatch + 1
          in Inr (lossed_minibatch @ [loss], minibatch',
                  out @ (if minibatch' mod 100 = 0 then [Print_eval_minibatch minibatch' loss]
                         else []))))))))"

fun eval_batches ::
  "ranknet \<Rightarrow> batch list \<Rightarrow> npfloat list \<times> nat \<times> event list \<Rightarrow>
     error + (npfloat list \<times> nat \<times> event list)" where
  "eval_batches model [] s = Inr s"
| "eval_batches model (b # bs) s = bind_e (eval_batch model b s) (eval_batches model bs)"

definition eval_model ::
  "('o, 's, 'd) env \<Rightarrow> ranknet \<Rightarrow> ranknet \<Rightarrow> 'd \<Rightarrow> error + (ranknet \<times> ranknet \<times> event list)" where
  "eval_model E model inference_model df_valid =
     (let model = model\<lparr>training := False\<rparr>;
          batch_size = 1000000
      in bind_e (eval_batches model (generate_query_pair_batch E df_valid batch_size) ([], 0, []))
           (\<lambda>(lossed_minibatch, minibatch, out).
             Inr (model, inference_model,
                  out @ [Print_eval_loss (np_mean lossed_minibatch), Eval_cross_entropy,
                         Eval_ndcg [10, 30]])))"

text \<open>One epoch: the lines up to the recording of the epoch loss, then the checkpoint block.\<close>

definition epoch_body ::
  "('o, 's, 'd) env \<Rightarrow> 'd \<Rightarrow> int \<Rightarrow> ('o, 's) tstate \<Rightarrow> error + ('o, 's) tstate" where
  "epoch_body E df_train i st =
     (let (sched', opt') = scheduler_step E (st_scheduler st) (st_optimizer st);
          st1 = st\<lparr>st_net := (st_net st)\<lparr>training := True\<rparr>, st_optimizer := opt',
                   st_scheduler := sched', st_trace := st_trace st @ [Scheduler_step]\<rparr>;
          batch_size = 100000
      in bind_e (train_batches E i (generate_query_pair_batch E df_train batch_size) (st1, [], 0))
           (\<lambda>(st2, lossed_minibatch, minibatch).
             let m = np_mean lossed_minibatch
             in Inr (st2\<lparr>st_losses := st_losses st2 @ [m],
                         st_trace := st_trace st2 @ [Print_epoch i m]\<rparr>)))"

definition epoch_checkpoint ::
  "('o, 's, 'd) env \<Rightarrow> int \<Rightarrow> string \<Rightarrow> 'd \<Rightarrow> int \<Rightarrow> ('o, 's) tstate \<Rightarrow> error + ('o, 's) tstate" where
  "epoch_checkpoint E start_epoch ckptfile df_valid i st =
     (if i mod 5 = 0 \<and> i \<noteq> start_epoch then
        let st1 = st\<lparr>st_files := save_to_ckpt (st_files st) ckptfile i (st_net st)
                                    (st_optimizer st) (st_scheduler st),
                     st_trace := st_trace st @ [Save_ckpt i]\<rparr>
        in bind_e (load_state_dict (st_net_inference st1) (state_dict (st_net st1))) (\<lambda>inf'.
           bind_e (eval_model E (st_net st1) inf' df_valid) (\<lambda>(model', inf'', out).
             Inr (st1\<lparr>st_net := model', st_net_inference := inf'',
                       st_trace := st_trace st1 @ [Sync_inference] @ out\<rparr>)))
      else Inr st)"


text \<open>
  \<open>train\<close> up to the loading of the checkpoint: the two networks, the optimizer chosen by
  name, the schedule, and the attempt to resume when the start epoch is not zero.
\<close>

definition train_setup ::
  "('o, 's, 'd) env \<Rightarrow> ('o, 's) filesystem \<Rightarrow> int \<Rightarrow> real \<Rightarrow> string \<Rightarrow>
     error + (('o, 's) tstate \<times> string)" where
  "train_setup E files0 start_epoch lr optim =
     bind_e (RankNet_init (init_w E) (init_b E) ranknet_structure) (\<lambda>net0.
     bind_e (RankNet_init (init_w_inference E) (init_b_inference E) ranknet_structure) (\<lambda>inf0.
       let net_inference = inf0\<lparr>training := False\<rparr>;
           ckptfile = get_ckptdir E ''ranknet'' ranknet_structure
       in bind_e (if optim = ''adam'' then Inr (Adam E lr)
                  else if optim = ''sgd'' then Inr (SGD E lr 0.9)
                  else Inl ValueError) (\<lambda>opt.
          let sched = StepLR E opt 10 0.5
          in bind_e (if start_epoch \<noteq> 0 then load_from_ckpt files0 ckptfile start_epoch net0
                     else Inr (net0, [])) (\<lambda>(net1, out).
             Inr (\<lparr>st_net = net1, st_net_inference = net_inference, st_optimizer = opt,
                   st_scheduler = sched, st_losses = [], st_files = files0,
                   st_trace = out\<rparr>, ckptfile)))))"


section \<open>Notions of the specification\<close>

text \<open>
  A network has the structure \<open>ns\<close> when it is as \<open>RankNet.__init__\<close> builds it from
  \<open>ns\<close>, whatever the values of its parameters: layers \<open>fc1\<close> to \<open>fcN\<close>, layer \<open>i\<close> from
  width \<open>ns[i-1]\<close> to width \<open>ns[i]\<close>, the last one to width 1.
\<close>

definition has_structure :: "nat list \<Rightarrow> ranknet \<Rightarrow> bool" where
  "has_structure ns net \<longleftrightarrow>
     ns \<noteq> [] \<and> fc_layers net = length ns \<and>
     map fst (modules net) = [1..<Suc (length ns)] \<and>
     map (\<lambda>(i, l). (in_features l, out_features l)) (modules net) = zip ns (tl ns @ [1]) \<and>
     list_all (\<lambda>(i, l). wf_linear l) (modules net)"

text \<open>The last dimension of a tensor is \<open>w\<close>; the number of rows of a batch.\<close>

fun has_width :: "nat \<Rightarrow> tensor \<Rightarrow> bool" where
  "has_width w (T1 xs) \<longleftrightarrow> length xs = w"
| "has_width w (T2 rows) \<longleftrightarrow> list_all (\<lambda>r. length r = w) rows"

fun batch_rows :: "tensor \<Rightarrow> nat option" where
  "batch_rows (T1 xs) = None"
| "batch_rows (T2 rows) = Some (length rows)"

text \<open>
  The score of the specification: each non-final linear layer followed by ReLU, then the
  final linear layer followed by sigmoid, over the ordered sequence of layers.
\<close>

fun apply_hidden :: "linear list \<Rightarrow> tensor \<Rightarrow> error + tensor" where
  "apply_hidden [] x = Inr x"
| "apply_hidden (l # ls) x = bind_e (linear_forward l x) (\<lambda>a. apply_hidden ls (tmap relu a))"

definition score_spec :: "ranknet \<Rightarrow> tensor \<Rightarrow> error + tensor" where
  "score_spec net x =
     (let layers = map snd (modules net)
      in bind_e (apply_hidden (butlast layers) x) (\<lambda>h.
         bind_e (linear_forward (last layers) h) (\<lambda>a. Inr (tmap sigmoid a))))"



text \<open>
  A sequence of layers is chained from width \<open>w\<close> to width \<open>c\<close>: each layer is well
  formed and takes the width its predecessor produces.
\<close>

fun chained :: "nat \<Rightarrow> linear list \<Rightarrow> nat \<Rightarrow> bool" where
  "chained w [] c \<longleftrightarrow> w = c"
| "chained w (l # ls) c \<longleftrightarrow> in_features l = w \<and> wf_linear l \<and> chained (out_features l) ls c"

section \<open>Notions for the training loop\<close>




text \<open>
  The events of the checkpoint schedule: saving a checkpoint, copying the parameters
  into the inference model, the two metric calls of the evaluation, and the final save.
\<close>

fun is_schedule_event :: "event \<Rightarrow> bool" where
  "is_schedule_event (Save_ckpt i) = True"
| "is_schedule_event Sync_inference = True"
| "is_schedule_event Eval_cross_entropy = True"
| "is_schedule_event (Eval_ndcg ks) = True"
| "is_schedule_event Save_final = True"
| "is_schedule_event _ = False"

text \<open>
  The schedule events the specification expects of epoch \<open>i\<close>: a checkpoint followed by
  the sync and the evaluation when \<open>i\<close> is a multiple of 5 and not the first epoch.
\<close>

definition checkpoint_events :: "int \<Rightarrow> int \<Rightarrow> event list" where
  "checkpoint_events start_epoch i =
     (if i mod 5 = 0 \<and> i \<noteq> start_epoch
      then [Save_ckpt i, Sync_inference, Eval_cross_entropy, Eval_ndcg [10, 30]] else [])"





section \<open>Example inputs\<close>

text \<open>A network of structure \<open>[2, 1]\<close> with fixed parameters, for concrete runs.\<close>

definition example_net :: ranknet where
  "example_net =
     \<lparr>fc_layers = 2,
      modules = [(1, \<lparr>in_features = 2, out_features = 1, weight = [[1, - 1]], bias = [0]\<rparr>),
                 (2, \<lparr>in_features = 1, out_features = 1, weight = [[2]], bias = [1]\<rparr>)],
      training = True\<rparr>"

text \<open>A second network of structure \<open>[2, 1]\<close>, with other parameter values.\<close>

definition example_inference_net :: ranknet where
  "example_inference_net =
     \<lparr>fc_layers = 2,
      modules = [(1, \<lparr>in_features = 2, out_features = 1, weight = [[0, 0]], bias = [5]\<rparr>),
                 (2, \<lparr>in_features = 1, out_features = 1, weight = [[3]], bias = [0]\<rparr>)],
      training = False\<rparr>"

text \<open>
  A small environment for concrete runs. The optimizer and scheduler states count their
  steps, the gradient step adds 1 to every bias, the training data has one skipped batch
  and one batch of two pairs, and the validation data one batch of one pair.
\<close>

definition example_step :: "ranknet \<Rightarrow> ranknet" where
  "example_step net =
     net\<lparr>modules := map (\<lambda>(i, l). (i, l\<lparr>bias := map (\<lambda>b. b + 1) (bias l)\<rparr>)) (modules net)\<rparr>"

definition example_train_batches :: "batch list" where
  "example_train_batches =
     [(None, None, None, None),
      (Some (T2 [replicate 136 1, replicate 136 0]), Some (T2 [[2], [0]]),
       Some (T2 [replicate 136 0, replicate 136 1]), Some (T2 [[1], [1]]))]"

definition example_valid_batches :: "batch list" where
  "example_valid_batches =
     [(Some (T2 [replicate 136 1]), Some (T2 [[3]]), Some (T2 [replicate 136 2]), Some (T2 [[0]]))]"

definition example_env :: "(nat, nat, bool) env" where
  "example_env =
     \<lparr>init_w = (\<lambda>k r c. 0), init_b = (\<lambda>k r. 0),
      init_w_inference = (\<lambda>k r c. 1), init_b_inference = (\<lambda>k r. 1),
      Adam = (\<lambda>lr. 0), SGD = (\<lambda>lr momentum. 0),
      StepLR = (\<lambda>opt step_size gamma. 0),
      scheduler_step = (\<lambda>sched opt. (Suc sched, opt)),
      backward_step = (\<lambda>net opt xi xj y. (example_step net, Suc opt)),
      get_ckptdir = (\<lambda>name ns. ''ckpt/'' @ name),
      load_train_vali_data = (\<lambda>fold. (True, False)),
      generate_query_pair_batch =
        (\<lambda>d batch_size. if d then example_train_batches else example_valid_batches)\<rparr>"

text \<open>A file system holding one checkpoint, of epoch 5, saved from another network.\<close>

definition example_saved_net :: ranknet where
  "example_saved_net =
     (case RankNet_init (\<lambda>k r c. 2) (\<lambda>k r. 3) ranknet_structure of
        Inr net \<Rightarrow> net | Inl e \<Rightarrow> example_net)"

definition example_files :: "(nat, nat) filesystem" where
  "example_files =
     (\<lambda>name. None)(ckpt_name ''ckpt/ranknet'' 5 \<mapsto>
        Ckpt_file \<lparr>epoch = 5, model_state_dict = state_dict example_saved_net,
                   optimizer_state_dict = 7, scheduler_state_dict = 3\<rparr>)"

text \<open>Two networks of structure \<open>[1]\<close> and a validation pair on which they disagree.\<close>

definition flat_net :: ranknet where
  "flat_net =
     \<lparr>fc_layers = 1,
      modules = [(1, \<lparr>in_features = 1, out_features = 1, weight = [[0]], bias = [0]\<rparr>)],
      training = True\<rparr>"




definition example_state :: "(nat, nat) tstate" where
  "example_state =
     \<lparr>st_net = example_net, st_net_inference = example_inference_net, st_optimizer = 0,
      st_scheduler = 0, st_losses = [], st_files = (\<lambda>name. None), st_trace = []\<rparr>"

section \<open>Properties of the forward passes\<close>




lemma sigmoid_zero: "sigmoid 0 = 1 / 2"
  by (simp add: sigmoid_def)

lemma length_affine: "wf_linear l \<Longrightarrow> length (affine l x) = out_features l"
  by (simp add: affine_def wf_linear_def)

lemma linear_forward_ok:
  assumes "wf_linear l" "has_width (in_features l) x"
  shows "\<exists>y. linear_forward l x = Inr y \<and> has_width (out_features l) y \<and> batch_rows y = batch_rows x"
  using assms by (cases x) (auto simp: length_affine list_all_iff)

lemma has_width_tmap [simp]: "has_width w (tmap f x) = has_width w x"
  by (cases x) (auto simp: list_all_iff)

lemma batch_rows_tmap [simp]: "batch_rows (tmap f x) = batch_rows x"
  by (cases x) auto

lemma bind_e_Inr [simp]: "bind_e (Inr x) f = f x"
  by (simp add: bind_e_def)

lemma bind_e_Inl [simp]: "bind_e (Inl e) f = Inl e"
  by (simp add: bind_e_def)

lemma bind_e_eq_Inr: "bind_e m f = Inr y \<longleftrightarrow> (\<exists>x. m = Inr x \<and> f x = Inr y)"
  by (cases m) auto

lemma chained_of_dims:
  "map (\<lambda>l. (in_features l, out_features l)) ls = zip ns (tl ns @ [c]) \<Longrightarrow>
   list_all wf_linear ls \<Longrightarrow> ns \<noteq> [] \<Longrightarrow> chained (hd ns) ls c"
proof (induction ls arbitrary: ns)
  case Nil
  then show ?case by (cases ns) auto
next
  case (Cons l ls)
  then obtain n ns' where ns: "ns = n # ns'" by (cases ns) auto
  show ?case
  proof (cases ns')
    case Nil
    with Cons.prems ns show ?thesis by auto
  next
    case (Cons m ms)
    with Cons.prems ns have
      "map (\<lambda>l. (in_features l, out_features l)) ls = zip ns' (tl ns' @ [c])"
      "in_features l = n" "out_features l = hd ns'" "wf_linear l" "list_all wf_linear ls"
      by auto
    with Cons.IH [of ns'] Cons ns show ?thesis by auto
  qed
qed

lemma apply_hidden_ok:
  "chained w (hs @ [lf]) c \<Longrightarrow> has_width w x \<Longrightarrow>
   \<exists>h. apply_hidden hs x = Inr h \<and> has_width (in_features lf) h \<and>
        batch_rows h = batch_rows x \<and> wf_linear lf \<and> out_features lf = c"
proof (induction hs arbitrary: w x)
  case Nil
  then show ?case by auto
next
  case (Cons l hs)
  then have l: "wf_linear l" "has_width (in_features l) x" "chained (out_features l) (hs @ [lf]) c"
    by auto
  from linear_forward_ok [OF l(1,2)] obtain y where
    y: "linear_forward l x = Inr y" "has_width (out_features l) y" "batch_rows y = batch_rows x"
    by blast
  from Cons.IH [OF l(3), of "tmap relu y"] y show ?case by auto
qed

lemma inference_loop_apply_hidden:
  "\<forall>i\<in>set is. map_of (modules net) i = Some (f i) \<Longrightarrow>
   inference_loop net is x = apply_hidden (map f is) x"
  by (induction "is" arbitrary: x) (auto simp: getattr_fc_def)

lemma forward_loop_pair:
  "inference_loop net is a = Inr a' \<Longrightarrow> inference_loop net is b = Inr b' \<Longrightarrow>
   forward_loop net is a b = Inr (a', b')"
  by (induction "is" arbitrary: a b) (auto simp: bind_e_eq_Inr)

lemma RankNet_sides_pair:
  "RankNetInference_forward net a = Inr s1 \<Longrightarrow> RankNetInference_forward net b = Inr s2 \<Longrightarrow>
   RankNet_sides net a b = Inr (s1, s2)"
  unfolding RankNetInference_forward_def RankNet_sides_def
  by (auto simp: bind_e_eq_Inr dest: forward_loop_pair)

lemma map_of_indexed:
  assumes "map fst ms = [1..<Suc n]" "1 \<le> i" "i \<le> n"
  shows "map_of ms i = Some (snd (ms ! (i - 1)))"
proof -
  have len: "length ms = n" using assms(1) by (metis diff_Suc_1 length_map length_upt)
  have d: "distinct (map fst ms)" using assms(1) by simp
  have "fst (ms ! (i - 1)) = i"
  proof -
    have "map fst ms ! (i - 1) = [1..<Suc n] ! (i - 1)" using assms(1) by (simp only:)
    moreover have "[1..<Suc n] ! (i - 1) = i" using assms(2,3) by (subst nth_upt) simp_all
    moreover have "map fst ms ! (i - 1) = fst (ms ! (i - 1))" using assms(2,3) len by (intro nth_map) simp
    ultimately show ?thesis by simp
  qed
  moreover have "ms ! (i - 1) \<in> set ms" using assms len by simp
  ultimately have "(i, snd (ms ! (i - 1))) \<in> set ms" by (metis prod.collapse)
  then show ?thesis by (rule map_of_is_SomeI [OF d])
qed

lemma butlast_indexed:
  assumes "length ms = n"
  shows "map (\<lambda>i. snd (ms ! (i - 1))) [1..<n] = butlast (map snd ms)"
  using assms by (auto simp: list_eq_iff_nth_eq nth_butlast)

lemma last_indexed:
  assumes "length ms = n" "0 < n"
  shows "snd (ms ! (n - 1)) = last (map snd ms)"
  using assms by (cases ms rule: rev_cases) (auto simp: nth_append)

lemma inference_is_score:
  assumes "has_structure ns net"
  shows "RankNetInference_forward net x = score_spec net x"
proof -
  let ?n = "length ns" and ?ms = "modules net"
  from assms have keys: "map fst ?ms = [1..<Suc ?n]" and fc: "fc_layers net = ?n" and pos: "0 < ?n"
    by (auto simp: has_structure_def)
  have len: "length ?ms = ?n" using keys by (metis diff_Suc_1 length_map length_upt)
  have "\<forall>i\<in>set [1..<?n]. map_of ?ms i = Some (snd (?ms ! (i - 1)))"
    using map_of_indexed [OF keys] by auto
  then have loop: "inference_loop net [1..<?n] x = apply_hidden (butlast (map snd ?ms)) x"
    using inference_loop_apply_hidden [of "[1..<?n]" net "\<lambda>i. snd (?ms ! (i - 1))" x]
      butlast_indexed [OF len] by simp
  have "map_of ?ms ?n = Some (last (map snd ?ms))"
    using map_of_indexed [OF keys, of ?n] pos last_indexed [OF len pos] by simp
  then have final: "getattr_fc net ?n = Inr (last (map snd ?ms))"
    by (simp add: getattr_fc_def)
  show ?thesis
    unfolding RankNetInference_forward_def score_spec_def Let_def fc loop final by simp
qed

lemma score_spec_ok:
  assumes "has_structure ns net" "has_width (hd ns) x"
  shows "\<exists>s. score_spec net x = Inr s \<and> has_width 1 s \<and> batch_rows s = batch_rows x"
proof -
  let ?ls = "map snd (modules net)"
  from assms(1) have dims: "map (\<lambda>l. (in_features l, out_features l)) ?ls = zip ns (tl ns @ [1])"
    and wf: "list_all wf_linear ?ls" and ne: "ns \<noteq> []"
    and keys: "map fst (modules net) = [1..<Suc (length ns)]"
    by (auto simp: has_structure_def list_all_iff case_prod_unfold comp_def)
  have "?ls \<noteq> []" using keys ne by (metis length_0_conv length_map length_upt diff_Suc_1)
  then have split: "?ls = butlast ?ls @ [last ?ls]" by simp
  have "chained (hd ns) (butlast ?ls @ [last ?ls]) 1"
    using chained_of_dims [OF dims wf ne] split by simp
  from apply_hidden_ok [OF this assms(2)] obtain h where
    h: "apply_hidden (butlast ?ls) x = Inr h" "has_width (in_features (last ?ls)) h"
       "batch_rows h = batch_rows x" "wf_linear (last ?ls)" "out_features (last ?ls) = 1"
    by blast
  from linear_forward_ok [OF h(4,2)] obtain y where
    "linear_forward (last ?ls) h = Inr y" "has_width 1 y" "batch_rows y = batch_rows h"
    using h(5) by auto
  with h show ?thesis by (auto simp: score_spec_def Let_def)
qed

lemma wf_nn_Linear: "wf_linear (nn_Linear w0 b0 n_in n_out)"
  by (simp add: wf_linear_def nn_Linear_def list_all_iff)

lemma init_fold:
  "foldl (\<lambda>ms i. setattr_fc ms (i + 1) (g i)) [] [0..<k] = map (\<lambda>i. (i + 1, g i)) [0..<k]"
proof (induction k)
  case 0
  then show ?case by simp
next
  case (Suc k)
  have "Suc k \<notin> fst ` set (map (\<lambda>i. (i + 1, g i)) [0..<k])" by auto
  with Suc show ?case by (simp add: setattr_fc_def)
qed

lemma RankNet_init_modules:
  assumes "ns \<noteq> []"
  shows "RankNet_init w0 b0 ns =
           Inr \<lparr>fc_layers = length ns,
                modules = map (\<lambda>i. (i + 1, nn_Linear (w0 (i + 1)) (b0 (i + 1)) (ns ! i) (ns ! (i + 1))))
                              [0..<length ns - 1] @
                          [(length ns, nn_Linear (w0 (length ns)) (b0 (length ns)) (last ns) 1)],
                training = True\<rparr>"
proof -
  let ?g = "\<lambda>i. nn_Linear (w0 (i + 1)) (b0 (i + 1)) (ns ! i) (ns ! (i + 1))"
  let ?ms = "map (\<lambda>i. (i + 1, ?g i)) [0..<length ns - 1]"
  have f: "foldl (\<lambda>ms i. setattr_fc ms (i + 1) (?g i)) [] [0..<length ns - 1] = ?ms"
    by (rule init_fold)
  have "length ns \<notin> set (map fst ?ms)" using assms by auto
  then have "setattr_fc ?ms (length ns) l = ?ms @ [(length ns, l)]" for l
    unfolding setattr_fc_def by (simp only: if_False)
  then show ?thesis using assms
    unfolding RankNet_init_def Let_def f by (simp only: if_False)
qed

lemma init_keys:
  "0 < n \<Longrightarrow> map fst (map (\<lambda>i. (i + 1, g i)) [0..<n - 1] @ [(n, l)]) = [1..<Suc n]"
  by (auto simp: list_eq_iff_nth_eq nth_append)

lemma init_dims:
  assumes "ns \<noteq> []"
  shows "map (\<lambda>i. (ns ! i, ns ! (i + 1))) [0..<length ns - 1] @ [(last ns, c)] = zip ns (tl ns @ [c])"
    (is "?l = ?r")
proof (rule nth_equalityI)
  show len: "length ?l = length ?r" using assms by simp
  fix i assume "i < length ?l"
  then have i: "i < length ns" using assms by simp
  show "?l ! i = ?r ! i"
  proof (cases "i < length ns - 1")
    case True
    then have "?l ! i = (ns ! i, ns ! (i + 1))" by (simp add: nth_append)
    moreover have "?r ! i = (ns ! i, ns ! (i + 1))"
      using True i by (simp add: nth_append nth_tl)
    ultimately show ?thesis by simp
  next
    case False
    then have eq: "i = length ns - 1" using i by simp
    have "?l ! i = (last ns, c)" unfolding eq by (simp add: nth_append)
    moreover have "?r ! i = (ns ! i, c)" using i eq by (simp add: nth_append)
    moreover have "ns ! i = last ns" using eq assms by (simp add: last_conv_nth)
    ultimately show ?thesis by simp
  qed
qed

lemma RankNet_init_structure:
  assumes "ns \<noteq> []"
  shows "\<exists>net. RankNet_init w0 b0 ns = Inr net \<and> has_structure ns net \<and> training net"
proof -
  let ?n = "length ns"
  let ?g = "\<lambda>i. nn_Linear (w0 (i + 1)) (b0 (i + 1)) (ns ! i) (ns ! (i + 1))"
  let ?lf = "nn_Linear (w0 ?n) (b0 ?n) (last ns) 1"
  let ?ms = "map (\<lambda>i. (i + 1, ?g i)) [0..<?n - 1] @ [(?n, ?lf)]"
  let ?net = "\<lparr>fc_layers = ?n, modules = ?ms, training = True\<rparr>"
  have pos: "0 < ?n" using assms by simp
  have keys: "map fst ?ms = [1..<Suc ?n]"
    using pos by (rule init_keys)
  have "map (\<lambda>(i, l). (in_features l, out_features l)) ?ms =
        map (\<lambda>i. (ns ! i, ns ! (i + 1))) [0..<?n - 1] @ [(last ns, 1)]"
    by (simp add: nn_Linear_def)
  then have dims: "map (\<lambda>(i, l). (in_features l, out_features l)) ?ms = zip ns (tl ns @ [1])"
    by (simp only: init_dims [OF assms])
  have wf: "list_all (\<lambda>(i, l). wf_linear l) ?ms"
    by (auto simp: list_all_iff wf_nn_Linear)
  have "has_structure ns ?net"
    unfolding has_structure_def using assms keys dims wf
    by (simp only: ranknet.simps length_map simp_thms)
  then show ?thesis
    unfolding RankNet_init_modules [OF assms] by simp
qed

lemma sequence_e_Inr: "sequence_e (map Inr xs) = Inr xs"
  by (induction xs) auto

lemma sequence_e_map2_rows:
  "length a = length b \<Longrightarrow> list_all (\<lambda>r. length r = w) a \<Longrightarrow> list_all (\<lambda>r. length r = w) b \<Longrightarrow>
   sequence_e (map2 (broadcast_row f err) a b) = Inr (map2 (map2 f) a b)"
  by (induction a b rule: list_induct2) (auto simp: broadcast_row_def)






lemma example_net_structure: "has_structure [2, 1] example_net"
  by (simp add: example_net_def has_structure_def wf_linear_def upt_rec)







section \<open>Copying the parameter state\<close>


lemma map_of_params:
  assumes "distinct (map fst ms)" "(i, l) \<in> set ms"
  shows "map_of (concat (map (\<lambda>(i, l). [((i, Weight), T2 (weight l)), ((i, Bias), T1 (bias l))]) ms))
           (i, Weight) = Some (T2 (weight l)) \<and>
         map_of (concat (map (\<lambda>(i, l). [((i, Weight), T2 (weight l)), ((i, Bias), T1 (bias l))]) ms))
           (i, Bias) = Some (T1 (bias l))"
  using assms
proof (induction ms)
  case Nil
  then show ?case by simp
next
  case (Cons m ms)
  obtain j l0 where m: "m = (j, l0)" by (cases m)
  show ?case
  proof (cases "i = j")
    case True
    with Cons.prems m have "l = l0" by (auto simp: image_iff)
    with True m show ?thesis by simp
  next
    case False
    with Cons m show ?thesis by auto
  qed
qed

lemma state_dict_keys:
  "map fst (state_dict net) = concat (map (\<lambda>i. [(i, Weight), (i, Bias)]) (map fst (modules net)))"
  unfolding state_dict_def by (induction "modules net" arbitrary: net) (auto simp: case_prod_unfold comp_def map_concat)


lemma structure_nth:
  assumes "has_structure ns net" "k < length ns"
  shows "length (modules net) = length ns" "fst (modules net ! k) = Suc k"
    "in_features (snd (modules net ! k)) = ns ! k"
    "out_features (snd (modules net ! k)) = (tl ns @ [1]) ! k"
    "wf_linear (snd (modules net ! k))"
proof -
  let ?ms = "modules net"
  from assms(1) have keys: "map fst ?ms = [1..<Suc (length ns)]"
    and dims: "map (\<lambda>(i, l). (in_features l, out_features l)) ?ms = zip ns (tl ns @ [1])"
    and wf: "list_all (\<lambda>(i, l). wf_linear l) ?ms"
    by (auto simp: has_structure_def)
  show len: "length ?ms = length ns" using keys by (metis diff_Suc_1 length_map length_upt)
  have "map fst ?ms ! k = [1..<Suc (length ns)] ! k" by (simp only: keys)
  moreover have "[1..<Suc (length ns)] ! k = Suc k" using assms(2) by (subst nth_upt) simp_all
  ultimately show "fst (?ms ! k) = Suc k" using assms(2) len by simp
  have "map (\<lambda>(i, l). (in_features l, out_features l)) ?ms ! k = zip ns (tl ns @ [1]) ! k"
    by (simp only: dims)
  then have "(in_features (snd (?ms ! k)), out_features (snd (?ms ! k))) = (ns ! k, (tl ns @ [1]) ! k)"
    using assms(2) len by (simp add: case_prod_unfold)
  then show "in_features (snd (?ms ! k)) = ns ! k" "out_features (snd (?ms ! k)) = (tl ns @ [1]) ! k"
    by simp_all
  have "?ms ! k \<in> set ?ms" using assms(2) len by simp
  with wf show "wf_linear (snd (?ms ! k))" by (auto simp: list_all_iff)
qed

lemma wf_linear_shape:
  "wf_linear l \<Longrightarrow> map length (weight l) = replicate (out_features l) (in_features l)"
proof -
  assume "wf_linear l"
  then have "length (map length (weight l)) = out_features l"
    "\<And>y. y \<in> set (map length (weight l)) \<Longrightarrow> y = in_features l"
    by (auto simp: wf_linear_def list_all_iff)
  then have "replicate (out_features l) (in_features l) = map length (weight l)"
    by (metis replicate_eqI)
  then show ?thesis by simp
qed

lemma load_state_dict_synced:
  assumes "has_structure ns net" "has_structure ns tgt"
  shows "load_state_dict tgt (state_dict net) = Inr (tgt\<lparr>modules := modules net\<rparr>)"
proof -
  let ?n = "length ns"
  let ?mn = "modules net" and ?mi = "modules tgt"
  let ?sd = "state_dict net"
  have kn: "map fst ?mn = [1..<Suc ?n]" and ki: "map fst ?mi = [1..<Suc ?n]"
    using assms by (auto simp: has_structure_def)
  have dn: "distinct (map fst ?mn)" by (simp only: kn distinct_upt)
  have len: "length ?mn = ?n" "length ?mi = ?n"
    using structure_nth(1) [OF assms(1)] structure_nth(1) [OF assms(2)] assms
    by (auto simp: has_structure_def)
  have same_keys: "map fst ?sd = map fst (state_dict tgt)"
    by (simp only: state_dict_keys kn ki)
  have look: "map_of ?sd (Suc k, Weight) = Some (T2 (weight (snd (?mn ! k)))) \<and>
              map_of ?sd (Suc k, Bias) = Some (T1 (bias (snd (?mn ! k))))" if "k < ?n" for k
  proof -
    have "?mn ! k \<in> set ?mn" using that len by simp
    then have "(Suc k, snd (?mn ! k)) \<in> set ?mn"
      using structure_nth(2) [OF assms(1) that] by (metis prod.collapse)
    from map_of_params [OF dn this] show ?thesis by (simp only: state_dict_def)
  qed
  have same: "in_features (snd (?mn ! k)) = in_features (snd (?mi ! k))"
       "out_features (snd (?mn ! k)) = out_features (snd (?mi ! k))"
       "wf_linear (snd (?mn ! k))" "wf_linear (snd (?mi ! k))" if "k < ?n" for k
    using structure_nth [OF assms(1) that] structure_nth [OF assms(2) that] by simp_all
  have shapes: "\<not> list_ex (\<lambda>(k, v). case map_of ?sd k of None \<Rightarrow> True
                                   | Some v' \<Rightarrow> \<not> same_shape v' v) (state_dict tgt)"
  proof -
    have "case map_of ?sd k of None \<Rightarrow> False | Some v' \<Rightarrow> same_shape v' v"
      if "(k, v) \<in> set (state_dict tgt)" for k v
    proof -
      from that obtain i l' where il: "(i, l') \<in> set ?mi"
        and kv: "(k, v) = ((i, Weight), T2 (weight l')) \<or> (k, v) = ((i, Bias), T1 (bias l'))"
        by (auto simp: state_dict_def)
      from il obtain j where j: "j < ?n" "?mi ! j = (i, l')"
        using len by (auto simp: in_set_conv_nth)
      have i: "i = Suc j" using structure_nth(2) [OF assms(2) j(1)] j(2) by simp
      have l': "snd (?mi ! j) = l'" using j(2) by simp
      have "map length (weight (snd (?mn ! j))) = map length (weight l')"
        using same [OF j(1)] l' by (simp add: wf_linear_shape)
      moreover have "length (bias (snd (?mn ! j))) = length (bias l')"
        using same [OF j(1)] l' by (simp add: wf_linear_def)
      ultimately show ?thesis using kv look [OF j(1)] i by auto
    qed
    then show ?thesis by (fastforce simp: list_ex_iff split: option.splits)
  qed
  have mods: "map (\<lambda>(i, l). (i, l\<lparr>weight := (case map_of ?sd (i, Weight) of
                                                 Some t \<Rightarrow> rows_of t | None \<Rightarrow> weight l),
                                    bias := (case map_of ?sd (i, Bias) of
                                                 Some t \<Rightarrow> entries t | None \<Rightarrow> bias l)\<rparr>)) ?mi = ?mn"
    (is "map ?F ?mi = ?mn")
  proof (rule nth_equalityI)
    show "length (map ?F ?mi) = length ?mn" using len by simp
    fix k assume "k < length (map ?F ?mi)"
    then have k: "k < ?n" using len by simp
    obtain i l' where il: "?mi ! k = (i, l')" by (cases "?mi ! k")
    have i: "i = Suc k" using structure_nth(2) [OF assms(2) k] il by simp
    let ?l = "snd (?mn ! k)"
    have "?F (?mi ! k) = (Suc k, l'\<lparr>weight := weight ?l, bias := bias ?l\<rparr>)"
      using il i look [OF k] by simp
    moreover have "l'\<lparr>weight := weight ?l, bias := bias ?l\<rparr> = ?l"
      using same(1,2) [OF k] il by (intro linear.equality) simp_all
    moreover have "?mn ! k = (Suc k, ?l)"
      using structure_nth(2) [OF assms(1) k] by (metis prod.collapse)
    ultimately show "map ?F ?mi ! k = ?mn ! k" using k len by simp
  qed
  show ?thesis
    unfolding load_state_dict_def Let_def using same_keys shapes mods by simp
qed

lemma inference_loop_cong:
  "modules a = modules b \<Longrightarrow> inference_loop a is x = inference_loop b is x"
  by (induction "is" arbitrary: x) (auto simp: getattr_fc_def)

lemma RankNetInference_forward_cong:
  "modules a = modules b \<Longrightarrow> fc_layers a = fc_layers b \<Longrightarrow>
   RankNetInference_forward a x = RankNetInference_forward b x"
  by (simp add: RankNetInference_forward_def getattr_fc_def inference_loop_cong [of a b])

text \<open>
  Claim C3. Once the parameter state of the pairwise model has been copied into an
  inference model of the same structure, the single-input forward pass of the inference
  model returns, for every input of the input width, the per-side score that the forward
  pass of the pairwise model computes internally on that input.
\<close>

theorem synced_inference_gives_side_scores:
  assumes "has_structure ns net" "has_structure ns tgt"
    "has_width (hd ns) x1" "has_width (hd ns) x2"
  shows "\<exists>tgt' s1 s2. load_state_dict tgt (state_dict net) = Inr tgt' \<and>
           RankNet_sides net x1 x2 = Inr (s1, s2) \<and>
           RankNetInference_forward tgt' x1 = Inr s1 \<and>
           RankNetInference_forward tgt' x2 = Inr s2"
proof -
  let ?t = "tgt\<lparr>modules := modules net\<rparr>"
  have fc: "fc_layers ?t = fc_layers net" using assms(1,2) by (simp add: has_structure_def)
  have same: "RankNetInference_forward ?t x = RankNetInference_forward net x" for x
    by (rule RankNetInference_forward_cong) (simp_all add: fc)
  from score_spec_ok [OF assms(1,3)] obtain s1 where "score_spec net x1 = Inr s1" by blast
  then have s1: "RankNetInference_forward net x1 = Inr s1"
    by (simp add: inference_is_score [OF assms(1)])
  from score_spec_ok [OF assms(1,4)] obtain s2 where "score_spec net x2 = Inr s2" by blast
  then have s2: "RankNetInference_forward net x2 = Inr s2"
    by (simp add: inference_is_score [OF assms(1)])
  show ?thesis
    using load_state_dict_synced [OF assms(1,2)] RankNet_sides_pair [OF s1 s2] s1 s2 same
    by simp
qed

lemma example_inference_net_structure: "has_structure [2, 1] example_inference_net"
  by (simp add: example_inference_net_def has_structure_def wf_linear_def upt_rec)

theorem synced_inference_gives_side_scores_witness:
  "has_structure [2, 1] example_net \<and> has_structure [2, 1] example_inference_net \<and>
   has_width (hd [2, 1]) (T2 [[3, 4], [0, 1]]) \<and> has_width (hd [2, 1]) (T2 [[1, 0], [5, 5]]) \<and>
   (\<exists>tgt' s1 s2. load_state_dict example_inference_net (state_dict example_net) = Inr tgt' \<and>
      RankNet_sides example_net (T2 [[3, 4], [0, 1]]) (T2 [[1, 0], [5, 5]]) = Inr (s1, s2) \<and>
      RankNetInference_forward tgt' (T2 [[3, 4], [0, 1]]) = Inr s1 \<and>
      RankNetInference_forward tgt' (T2 [[1, 0], [5, 5]]) = Inr s2)"
  using synced_inference_gives_side_scores [of "[2, 1]" example_net example_inference_net
      "T2 [[3, 4], [0, 1]]" "T2 [[1, 0], [5, 5]]"]
    example_net_structure example_inference_net_structure
  by simp

section \<open>Labels\<close>


lemma concat_map2_rows:
  "length a = length b \<Longrightarrow> list_all (\<lambda>r. length r = w) a \<Longrightarrow> list_all (\<lambda>r. length r = w) b \<Longrightarrow>
   concat (map2 (map2 f) a b) = map2 f (concat a) (concat b)"
  by (induction a b rule: list_induct2) auto

lemma map_length_map2_rows:
  "length a = length b \<Longrightarrow> list_all (\<lambda>r. length r = w) a \<Longrightarrow> list_all (\<lambda>r. length r = w) b \<Longrightarrow>
   map (length \<circ> (\<lambda>(x, y). map2 f x y)) (zip a b) = map length a"
  by (induction a b rule: list_induct2) auto

lemma broadcast2_same:
  assumes "has_width w a" "has_width w b" "batch_rows a = batch_rows b"
  shows "\<exists>y. broadcast2 f err a b = Inr y \<and> same_shape y a \<and>
           entries y = map2 f (entries a) (entries b)"
proof (cases a)
  case (T1 xs)
  with assms obtain ys where "b = T1 ys" by (cases b) auto
  with T1 assms show ?thesis by (simp add: broadcast_row_def)
next
  case (T2 ra)
  with assms obtain rb where "b = T2 rb" by (cases b) auto
  with T2 assms show ?thesis
    by (simp add: sequence_e_map2_rows [where w = w] concat_map2_rows [where w = w]
        map_length_map2_rows [where w = w])
qed

text \<open>
  Claim C4. The binary training label of a batch is, entry by entry, 1 where the label
  of the first item is greater than that of the second and 0 otherwise; for
  \<open>y_i = [3, 1]\<close> and \<open>y_j = [1, 2]\<close> it is \<open>[1, 0]\<close>.
\<close>

theorem binary_label_is_greater:
  "(has_width w a \<and> has_width w b \<and> batch_rows a = batch_rows b \<longrightarrow>
     (\<exists>y. binary_label (Some a) (Some b) = Inr y \<and> same_shape y a \<and>
        entries y = map2 (\<lambda>u v. if u > v then 1 else 0) (entries a) (entries b))) \<and>
   binary_label (Some (T1 [3, 1])) (Some (T1 [1, 2])) = Inr (T1 [1, 0])"
proof
  show "has_width w a \<and> has_width w b \<and> batch_rows a = batch_rows b \<longrightarrow>
     (\<exists>y. binary_label (Some a) (Some b) = Inr y \<and> same_shape y a \<and>
        entries y = map2 (\<lambda>u v. if u > v then 1 else 0) (entries a) (entries b))"
    using broadcast2_same [of w a b] by (auto simp: binary_label_def)
  show "binary_label (Some (T1 [3, 1])) (Some (T1 [1, 2])) = Inr (T1 [1, 0])"
    by (simp add: binary_label_def broadcast_row_def)
qed

theorem binary_label_is_greater_witness:
  "has_width 1 (T2 [[3], [1]]) \<and> has_width 1 (T2 [[1], [2]]) \<and>
   batch_rows (T2 [[3], [1]]) = batch_rows (T2 [[1], [2]]) \<and>
   (\<exists>y. binary_label (Some (T2 [[3], [1]])) (Some (T2 [[1], [2]])) = Inr y \<and>
      same_shape y (T2 [[3], [1]]) \<and> entries y = [1, 0])"
  using binary_label_is_greater [of 1 "T2 [[3], [1]]" "T2 [[1], [2]]"]
  by simp

section \<open>Skipped batches\<close>

lemma train_batch_skipped: "skipped b \<Longrightarrow> train_batch E i b s = Inr s"
  by (cases s; cases b) (simp add: train_batch_def skipped_def)








section \<open>Traces of the loops\<close>

lemma train_batches_all_skipped:
  "list_all skipped bs \<Longrightarrow> train_batches E i bs s = Inr s"
  by (induction bs) (auto simp: train_batch_skipped)



lemma eval_batch_trace:
  assumes "eval_batch model b (l, m, out) = Inr (l', m', out')"
  shows "\<exists>ev. out' = out @ ev \<and> (\<forall>e\<in>set ev. \<not> is_schedule_event e \<and> e \<noteq> Optimizer_step)"
  using assms
  by (cases b) (auto simp: eval_batch_def bind_e_eq_Inr Let_def split: if_splits)

lemma eval_batches_trace:
  assumes "eval_batches model bs (l, m, out) = Inr (l', m', out')"
  shows "\<exists>ev. out' = out @ ev \<and> (\<forall>e\<in>set ev. \<not> is_schedule_event e \<and> e \<noteq> Optimizer_step)"
  using assms
proof (induction bs arbitrary: l m out)
  case Nil
  then show ?case by simp
next
  case (Cons b bs)
  then obtain l1 m1 out1 where
    1: "eval_batch model b (l, m, out) = Inr (l1, m1, out1)"
    and 2: "eval_batches model bs (l1, m1, out1) = Inr (l', m', out')"
    by (auto simp: bind_e_eq_Inr)
  from eval_batch_trace [OF 1] Cons.IH [OF 2] show ?case by auto
qed

lemma eval_model_trace:
  assumes "eval_model E model tgt dv = Inr (model', tgt', out)"
  shows "model' = model\<lparr>training := False\<rparr> \<and> tgt' = tgt \<and>
         filter is_schedule_event out = [Eval_cross_entropy, Eval_ndcg [10, 30]] \<and>
         Optimizer_step \<notin> set out"
proof -
  from assms obtain l m ev where
    ev: "eval_batches (model\<lparr>training := False\<rparr>) (generate_query_pair_batch E dv 1000000) ([], 0, []) =
           Inr (l, m, ev)"
    and out: "out = ev @ [Print_eval_loss (np_mean l), Eval_cross_entropy, Eval_ndcg [10, 30]]"
    and rest: "model' = model\<lparr>training := False\<rparr>" "tgt' = tgt"
    by (auto simp: eval_model_def Let_def bind_e_eq_Inr)
  from eval_batches_trace [OF ev] have "\<forall>e\<in>set ev. \<not> is_schedule_event e \<and> e \<noteq> Optimizer_step"
    by simp
  then have "filter is_schedule_event ev = []" "Optimizer_step \<notin> set ev"
    by (auto simp: filter_empty_conv)
  with out rest show ?thesis by simp
qed


lemma epoch_checkpoint_trace:
  assumes "epoch_checkpoint E start c dv i st = Inr st'"
  shows "\<exists>out. st_trace st' = st_trace st @ out \<and> Optimizer_step \<notin> set out \<and>
           filter is_schedule_event out = checkpoint_events start i \<and>
           st_losses st' = st_losses st"
proof (cases "i mod 5 = 0 \<and> i \<noteq> start")
  case False
  with assms show ?thesis by (auto simp: epoch_checkpoint_def checkpoint_events_def)
next
  case True
  let ?st1 = "st\<lparr>st_files := save_to_ckpt (st_files st) c i (st_net st) (st_optimizer st)
                                (st_scheduler st),
                   st_trace := st_trace st @ [Save_ckpt i]\<rparr>"
  from assms True obtain tgt model' tgt' out where
    ev: "eval_model E (st_net ?st1) tgt dv = Inr (model', tgt', out)"
    and st': "st' = ?st1\<lparr>st_net := model', st_net_inference := tgt',
                          st_trace := st_trace ?st1 @ [Sync_inference] @ out\<rparr>"
    by (auto simp: epoch_checkpoint_def Let_def bind_e_eq_Inr)
  from eval_model_trace [OF ev] st' True show ?thesis
    by (simp add: checkpoint_events_def)
qed


section \<open>Runs on well-formed data return\<close>




lemma has_structure_training [simp]:
  "has_structure ns (net\<lparr>training := t\<rparr>) = has_structure ns net"
  by (simp add: has_structure_def)










section \<open>Setting up a run\<close>

lemma ranknet_structure_nonempty: "ranknet_structure \<noteq> []"
  by (simp add: ranknet_structure_def)

lemma load_from_ckpt_missing:
  assumes "files (ckpt_name c ep) = None"
  shows "load_from_ckpt files c ep model = Inr (model, [Print_not_exist (ckpt_name c ep)])"
  using assms by (simp add: load_from_ckpt_def ckpt_name_def Let_def)

lemma load_from_ckpt_found:
  assumes "files (ckpt_name c ep) = Some (Ckpt_file ck)" "model_state_dict ck = state_dict src"
    "has_structure ns src" "has_structure ns model"
  shows "load_from_ckpt files c ep model =
           Inr (model\<lparr>modules := modules src\<rparr>,
                [Print_load_from (ckpt_name c ep), Print_finish_load (ckpt_name c ep)])"
  using assms(1,2) load_state_dict_synced [OF assms(3,4)]
  by (simp add: load_from_ckpt_def ckpt_name_def Let_def)

lemma train_setup_fresh:
  assumes "optim = ''adam'' \<or> optim = ''sgd''"
    "start = 0 \<or> files (ckpt_name (get_ckptdir E ''ranknet'' ranknet_structure) start) = None"
  shows "\<exists>net0 tgt0.
           RankNet_init (init_w E) (init_b E) ranknet_structure = Inr net0 \<and>
           RankNet_init (init_w_inference E) (init_b_inference E) ranknet_structure = Inr tgt0 \<and>
           has_structure ranknet_structure net0 \<and> has_structure ranknet_structure tgt0 \<and>
           train_setup E files start lr optim =
             Inr (\<lparr>st_net = net0, st_net_inference = tgt0\<lparr>training := False\<rparr>,
                   st_optimizer = (if optim = ''adam'' then Adam E lr else SGD E lr 0.9),
                   st_scheduler = StepLR E (if optim = ''adam'' then Adam E lr else SGD E lr 0.9) 10 0.5,
                   st_losses = [], st_files = files,
                   st_trace = (if start = 0 then []
                      else [Print_not_exist (ckpt_name (get_ckptdir E ''ranknet'' ranknet_structure) start)])\<rparr>,
                  get_ckptdir E ''ranknet'' ranknet_structure)"
proof -
  from RankNet_init_structure [OF ranknet_structure_nonempty] obtain net0 where
    n: "RankNet_init (init_w E) (init_b E) ranknet_structure = Inr net0"
       "has_structure ranknet_structure net0" by blast
  from RankNet_init_structure [OF ranknet_structure_nonempty] obtain tgt0 where
    t: "RankNet_init (init_w_inference E) (init_b_inference E) ranknet_structure = Inr tgt0"
       "has_structure ranknet_structure tgt0" by blast
  have "train_setup E files start lr optim =
             Inr (\<lparr>st_net = net0, st_net_inference = tgt0\<lparr>training := False\<rparr>,
                   st_optimizer = (if optim = ''adam'' then Adam E lr else SGD E lr 0.9),
                   st_scheduler = StepLR E (if optim = ''adam'' then Adam E lr else SGD E lr 0.9) 10 0.5,
                   st_losses = [], st_files = files,
                   st_trace = (if start = 0 then []
                      else [Print_not_exist (ckpt_name (get_ckptdir E ''ranknet'' ranknet_structure) start)])\<rparr>,
                  get_ckptdir E ''ranknet'' ranknet_structure)"
    using assms n(1) t(1)
    by (auto simp: train_setup_def Let_def load_from_ckpt_missing)
  with n t show ?thesis by blast
qed

lemma train_setup_loaded:
  assumes "optim = ''adam'' \<or> optim = ''sgd''" "start \<noteq> 0"
    "files (ckpt_name (get_ckptdir E ''ranknet'' ranknet_structure) start) = Some (Ckpt_file ck)"
    "model_state_dict ck = state_dict src" "has_structure ranknet_structure src"
  shows "\<exists>net0 tgt0.
           RankNet_init (init_w E) (init_b E) ranknet_structure = Inr net0 \<and>
           RankNet_init (init_w_inference E) (init_b_inference E) ranknet_structure = Inr tgt0 \<and>
           has_structure ranknet_structure net0 \<and> has_structure ranknet_structure tgt0 \<and>
           train_setup E files start lr optim =
             Inr (\<lparr>st_net = net0\<lparr>modules := modules src\<rparr>,
                   st_net_inference = tgt0\<lparr>training := False\<rparr>,
                   st_optimizer = (if optim = ''adam'' then Adam E lr else SGD E lr 0.9),
                   st_scheduler = StepLR E (if optim = ''adam'' then Adam E lr else SGD E lr 0.9) 10 0.5,
                   st_losses = [], st_files = files,
                   st_trace =
                     [Print_load_from (ckpt_name (get_ckptdir E ''ranknet'' ranknet_structure) start),
                      Print_finish_load (ckpt_name (get_ckptdir E ''ranknet'' ranknet_structure) start)]\<rparr>,
                  get_ckptdir E ''ranknet'' ranknet_structure)"
proof -
  from RankNet_init_structure [OF ranknet_structure_nonempty] obtain net0 where
    n: "RankNet_init (init_w E) (init_b E) ranknet_structure = Inr net0"
       "has_structure ranknet_structure net0" by blast
  from RankNet_init_structure [OF ranknet_structure_nonempty] obtain tgt0 where
    t: "RankNet_init (init_w_inference E) (init_b_inference E) ranknet_structure = Inr tgt0"
       "has_structure ranknet_structure tgt0" by blast
  have "train_setup E files start lr optim =
             Inr (\<lparr>st_net = net0\<lparr>modules := modules src\<rparr>,
                   st_net_inference = tgt0\<lparr>training := False\<rparr>,
                   st_optimizer = (if optim = ''adam'' then Adam E lr else SGD E lr 0.9),
                   st_scheduler = StepLR E (if optim = ''adam'' then Adam E lr else SGD E lr 0.9) 10 0.5,
                   st_losses = [], st_files = files,
                   st_trace =
                     [Print_load_from (ckpt_name (get_ckptdir E ''ranknet'' ranknet_structure) start),
                      Print_finish_load (ckpt_name (get_ckptdir E ''ranknet'' ranknet_structure) start)]\<rparr>,
                  get_ckptdir E ''ranknet'' ranknet_structure)"
    using assms(1,2) n(1) t(1) load_from_ckpt_found [of files "get_ckptdir E ''ranknet'' ranknet_structure" start ck src
        ranknet_structure net0, OF assms(3,4,5) n(2)]
    by (auto simp: train_setup_def Let_def)
  with n t show ?thesis by blast
qed

section \<open>The checkpoint schedule\<close>









section \<open>Resuming from a checkpoint\<close>

lemma state_dict_of_modules: "state_dict (net\<lparr>modules := modules src\<rparr>) = state_dict src"
  by (simp add: state_dict_def)

text \<open>
  Claim C7, as the code has it. When training is resumed from a nonzero start epoch and
  the checkpoint file exists (holding the parameter state of a network of the same
  structure), the loader restores the model parameters from the checkpoint and nothing
  else: the optimizer and the scheduler of the run are the freshly constructed ones,
  whatever optimizer and scheduler state the checkpoint holds.
\<close>

theorem resume_restores_model_only:
  assumes "start \<noteq> 0"
    "files (ckpt_name (get_ckptdir E ''ranknet'' ranknet_structure) start) = Some (Ckpt_file ck)"
    "model_state_dict ck = state_dict src" "has_structure ranknet_structure src"
    "optim = ''adam'' \<or> optim = ''sgd''"
  shows "\<exists>st c. train_setup E files start lr optim = Inr (st, c) \<and>
           state_dict (st_net st) = model_state_dict ck \<and>
           st_optimizer st = (if optim = ''adam'' then Adam E lr else SGD E lr 0.9) \<and>
           st_scheduler st = StepLR E (st_optimizer st) 10 0.5"
  using train_setup_loaded [where files = files and E = E and lr = lr,
      OF assms(5,1,2,3,4)] assms(3)
  by (auto simp: state_dict_of_modules)

lemma example_saved_net_structure: "has_structure ranknet_structure example_saved_net"
proof -
  from RankNet_init_structure [OF ranknet_structure_nonempty, of "\<lambda>k r c. 2" "\<lambda>k r. 3"]
  obtain net where "RankNet_init (\<lambda>k r c. 2) (\<lambda>k r. 3) ranknet_structure = Inr net"
    "has_structure ranknet_structure net" by blast
  then show ?thesis by (simp add: example_saved_net_def)
qed

lemma example_files_ckpt:
  "example_files (ckpt_name (get_ckptdir example_env ''ranknet'' ranknet_structure) 5) =
     Some (Ckpt_file \<lparr>epoch = 5, model_state_dict = state_dict example_saved_net,
             optimizer_state_dict = 7, scheduler_state_dict = 3\<rparr>)"
  by (simp add: example_files_def example_env_def)

theorem resume_restores_model_only_witness:
  "(5::int) \<noteq> 0 \<and>
   example_files (ckpt_name (get_ckptdir example_env ''ranknet'' ranknet_structure) 5) =
     Some (Ckpt_file \<lparr>epoch = 5, model_state_dict = state_dict example_saved_net,
             optimizer_state_dict = 7, scheduler_state_dict = 3\<rparr>) \<and>
   has_structure ranknet_structure example_saved_net \<and>
   (\<exists>st c. train_setup example_env example_files 5 (1 / 10000) ''adam'' = Inr (st, c) \<and>
      state_dict (st_net st) = state_dict example_saved_net \<and>
      st_optimizer st = Adam example_env (1 / 10000) \<and>
      st_scheduler st = StepLR example_env (st_optimizer st) 10 0.5)"
  using resume_restores_model_only [where start = 5 and files = example_files and E = example_env
      and src = example_saved_net and optim = "''adam''" and lr = "1 / 10000",
      OF _ example_files_ckpt _ example_saved_net_structure]
    example_files_ckpt example_saved_net_structure
  by simp

theorem resume_full_state_counterexample:
  "example_files (ckpt_name (get_ckptdir example_env ''ranknet'' ranknet_structure) 5) =
     Some (Ckpt_file \<lparr>epoch = 5, model_state_dict = state_dict example_saved_net,
             optimizer_state_dict = 7, scheduler_state_dict = 3\<rparr>) \<and>
   map_sum id (st_optimizer \<circ> fst) (train_setup example_env example_files 5 (1 / 10000) ''adam'') =
     Inr 0 \<and>
   map_sum id (st_scheduler \<circ> fst) (train_setup example_env example_files 5 (1 / 10000) ''adam'') =
     Inr 0"
proof -
  from train_setup_loaded [where files = example_files and E = example_env and lr = "1 / 10000"
      and optim = "''adam''" and start = 5 and src = example_saved_net,
      OF _ _ example_files_ckpt _ example_saved_net_structure]
  obtain st c where "train_setup example_env example_files 5 (1 / 10000) ''adam'' = Inr (st, c)"
    "st_optimizer st = Adam example_env (1 / 10000)"
    "st_scheduler st = StepLR example_env (Adam example_env (1 / 10000)) 10 0.5"
    by auto
  then show ?thesis using example_files_ckpt by (simp add: example_env_def)
qed

text \<open>
  Claim C8. When a resume from a nonzero start epoch is requested and the checkpoint
  file of that epoch does not exist, the loader raises nothing: it prints that the file
  does not exist and leaves the model as it is, and the setup of the run returns with
  the freshly initialised parameters, exactly as for a start from epoch 0 but for the
  printed message.
\<close>

theorem missing_checkpoint_is_not_fatal:
  assumes "start \<noteq> 0"
    "files (ckpt_name (get_ckptdir E ''ranknet'' ranknet_structure) start) = None"
    "optim = ''adam'' \<or> optim = ''sgd''"
  shows "load_from_ckpt files (get_ckptdir E ''ranknet'' ranknet_structure) start model =
           Inr (model, [Print_not_exist (ckpt_name (get_ckptdir E ''ranknet'' ranknet_structure) start)]) \<and>
         (\<exists>st c net0. train_setup E files start lr optim = Inr (st, c) \<and>
            RankNet_init (init_w E) (init_b E) ranknet_structure = Inr net0 \<and>
            st_net st = net0 \<and>
            st_trace st = [Print_not_exist (ckpt_name c start)] \<and>
            train_setup E files 0 lr optim = Inr (st\<lparr>st_trace := []\<rparr>, c))"
proof -
  from train_setup_fresh [where files = files and E = E and lr = lr and start = start,
      OF assms(3)] assms(2)
  obtain net0 tgt0 st where
    1: "RankNet_init (init_w E) (init_b E) ranknet_structure = Inr net0"
       "RankNet_init (init_w_inference E) (init_b_inference E) ranknet_structure = Inr tgt0"
    and st: "st = \<lparr>st_net = net0, st_net_inference = tgt0\<lparr>training := False\<rparr>,
                   st_optimizer = (if optim = ''adam'' then Adam E lr else SGD E lr 0.9),
                   st_scheduler = StepLR E (if optim = ''adam'' then Adam E lr else SGD E lr 0.9) 10 0.5,
                   st_losses = [], st_files = files,
                   st_trace = [Print_not_exist (ckpt_name (get_ckptdir E ''ranknet'' ranknet_structure) start)]\<rparr>"
    and 2: "train_setup E files start lr optim = Inr (st, get_ckptdir E ''ranknet'' ranknet_structure)"
    using assms(1) by auto
  from train_setup_fresh [where files = files and E = E and lr = lr and start = 0,
      OF assms(3)] 1
  have 3: "train_setup E files 0 lr optim =
             Inr (st\<lparr>st_trace := []\<rparr>, get_ckptdir E ''ranknet'' ranknet_structure)"
    unfolding st by auto
  show ?thesis
    using 1(1) 2 3 st load_from_ckpt_missing [where files = files and model = model, OF assms(2)] by auto
qed

theorem missing_checkpoint_is_not_fatal_witness:
  "(10::int) \<noteq> 0 \<and>
   example_files (ckpt_name (get_ckptdir example_env ''ranknet'' ranknet_structure) 10) = None \<and>
   load_from_ckpt example_files (get_ckptdir example_env ''ranknet'' ranknet_structure) 10 example_net =
     Inr (example_net,
          [Print_not_exist (ckpt_name (get_ckptdir example_env ''ranknet'' ranknet_structure) 10)]) \<and>
   (\<exists>st c net0. train_setup example_env example_files 10 (1 / 10000) ''sgd'' = Inr (st, c) \<and>
      RankNet_init (init_w example_env) (init_b example_env) ranknet_structure = Inr net0 \<and>
      st_net st = net0 \<and>
      st_trace st = [Print_not_exist (ckpt_name c 10)] \<and>
      train_setup example_env example_files 0 (1 / 10000) ''sgd'' = Inr (st\<lparr>st_trace := []\<rparr>, c))"
proof -
  have none: "example_files (ckpt_name (get_ckptdir example_env ''ranknet'' ranknet_structure) 10) = None"
    by (simp add: example_files_def example_env_def ckpt_name_def str_int_def str_nat.simps)
  from missing_checkpoint_is_not_fatal [where start = 10 and files = example_files
      and E = example_env and optim = "''sgd''" and lr = "1 / 10000" and model = example_net,
      OF _ none] none
  show ?thesis by simp
qed

section \<open>An epoch whose batches are all skipped\<close>

text \<open>
  Claim C10. When every batch the generator yields in an epoch is skipped, the epoch
  still returns and appends one entry to the recorded losses: the mean of the empty list
  of batch losses, which is \<open>nan\<close> and not the number 0. The epoch takes no optimizer
  step: its trace has the scheduler step and the printed epoch loss only, the parameters
  of the network are as before, and the checkpoint block that may follow adds no
  optimizer step either.
\<close>

theorem epoch_of_skipped_batches:
  assumes "list_all skipped (generate_query_pair_batch E dt 100000)"
  shows "\<exists>st1. epoch_body E dt i st = Inr st1 \<and>
           st_losses st1 = st_losses st @ [np_mean []] \<and> np_mean [] = NaN \<and> NaN \<noteq> Num 0 \<and>
           st_trace st1 = st_trace st @ [Scheduler_step, Print_epoch i NaN] \<and>
           state_dict (st_net st1) = state_dict (st_net st) \<and>
           st_optimizer st1 = snd (scheduler_step E (st_scheduler st) (st_optimizer st)) \<and>
           (\<forall>st2. epoch_checkpoint E start c dv i st1 = Inr st2 \<longrightarrow>
              st_losses st2 = st_losses st @ [NaN] \<and>
              Optimizer_step \<notin> set (drop (length (st_trace st)) (st_trace st2)))"
proof -
  obtain sched' opt' where so: "scheduler_step E (st_scheduler st) (st_optimizer st) = (sched', opt')"
    by (cases "scheduler_step E (st_scheduler st) (st_optimizer st)")
  let ?st1 = "st\<lparr>st_net := (st_net st)\<lparr>training := True\<rparr>, st_optimizer := opt',
                   st_scheduler := sched', st_trace := st_trace st @ [Scheduler_step],
                   st_losses := st_losses st @ [NaN],
                   st_trace := st_trace st @ [Scheduler_step, Print_epoch i NaN]\<rparr>"
  have body: "epoch_body E dt i st = Inr ?st1"
    using so by (simp add: epoch_body_def Let_def train_batches_all_skipped [OF assms] np_mean_def)
  have "st_losses st2 = st_losses st @ [NaN] \<and>
        Optimizer_step \<notin> set (drop (length (st_trace st)) (st_trace st2))"
    if "epoch_checkpoint E start c dv i ?st1 = Inr st2" for st2
    using epoch_checkpoint_trace [OF that] by auto
  with body so show ?thesis by (simp add: np_mean_def state_dict_def)
qed

theorem epoch_of_skipped_batches_witness:
  "list_all skipped
     (generate_query_pair_batch
        (example_env\<lparr>generate_query_pair_batch :=
           (\<lambda>d n. [(None, None, None, None), (Some (T2 []), None, None, None)])\<rparr>) True 100000) \<and>
   (\<exists>st1. epoch_body
        (example_env\<lparr>generate_query_pair_batch :=
           (\<lambda>d n. [(None, None, None, None), (Some (T2 []), None, None, None)])\<rparr>)
        True 5 example_state = Inr st1 \<and>
      st_losses st1 = [NaN] \<and>
      st_trace st1 = [Scheduler_step, Print_epoch 5 NaN] \<and>
      state_dict (st_net st1) = state_dict example_net \<and>
      st_optimizer st1 = 0)"
  using epoch_of_skipped_batches [where E = "example_env\<lparr>generate_query_pair_batch :=
           (\<lambda>d n. [(None, None, None, None), (Some (T2 []), None, None, None)])\<rparr>"
      and dt = True and i = 5 and st = example_state and start = 0 and c = "''ckpt''"
      and dv = False]
  by (auto simp: skipped_def example_state_def example_env_def)

section \<open>The evaluation routine\<close>










lemma flat_forward: "RankNet_forward flat_net (T2 [[1]]) (T2 [[0]]) = Inr (T2 [[1 / 2]])"
  by (simp add: RankNet_forward_def RankNet_sides_def getattr_fc_def flat_net_def affine_def
      dot_def tsub_def broadcast_row_def sigmoid_zero)















end
